theory Spec2Isabelle
  imports Main
begin

section \<open>The Go library functions the loader calls\<close>

text \<open>
  The loader in \<^verbatim>\<open>env.go\<close> works on Go strings (byte sequences, here \<open>string\<close>) and
  calls \<^verbatim>\<open>strings.Split\<close>, \<^verbatim>\<open>strings.SplitN\<close>, \<^verbatim>\<open>strings.TrimSpace\<close>,
  \<^verbatim>\<open>strconv.ParseInt\<close>, \<^verbatim>\<open>strconv.ParseUint\<close> and \<^verbatim>\<open>strconv.ParseBool\<close> of the Go
  standard library. Their behaviour on the arguments the loader passes (a one-byte
  separator, base 10) is written out below, following the library's algorithms.
\<close>

subsection \<open>strings.Split and strings.SplitN with a one-byte separator\<close>

text \<open>
  \<^verbatim>\<open>strings.Split(s, sep)\<close> cuts at every occurrence of the separator and returns at
  least one part: the empty string gives one empty part.
\<close>

fun Split :: "string \<Rightarrow> char \<Rightarrow> string list" where
  "Split [] sep = [[]]"
| "Split (c # cs) sep =
     (if c = sep then [] # Split cs sep
      else (case Split cs sep of
              [] \<Rightarrow> [[c]]
            | p # ps \<Rightarrow> (c # p) # ps))"

text \<open>
  \<^verbatim>\<open>strings.SplitN(s, sep, n)\<close> for \<open>n \<ge> 0\<close>: no part for \<open>n = 0\<close>, otherwise at most
  \<open>n\<close> parts, the last one being the unsplit rest.
\<close>

fun SplitN :: "string \<Rightarrow> char \<Rightarrow> nat \<Rightarrow> string list" where
  "SplitN s sep 0 = []"
| "SplitN s sep (Suc 0) = [s]"
| "SplitN s sep (Suc (Suc n)) =
     (if sep \<in> set s
      then takeWhile (\<lambda>c. c \<noteq> sep) s
             # SplitN (tl (dropWhile (\<lambda>c. c \<noteq> sep) s)) sep (Suc n)
      else [s])"

subsection \<open>strings.TrimSpace\<close>

text \<open>
  \<^verbatim>\<open>TrimSpace\<close> removes the leading and trailing white space of a string, white space
  being the code points of \<^verbatim>\<open>unicode.IsSpace\<close>. \<open>spaceRunes\<close> lists their UTF-8
  encodings: tab, line feed, vertical tab, form feed, carriage return, space, U+0085,
  U+00A0, U+1680, U+2000 to U+200A, U+2028, U+2029, U+202F, U+205F and U+3000.
\<close>

definition spaceRunes :: "string list" where
  "spaceRunes =
     [[CHR 0x09], [CHR 0x0A], [CHR 0x0B], [CHR 0x0C], [CHR 0x0D], [CHR 0x20],
      [CHR 0xC2, CHR 0x85], [CHR 0xC2, CHR 0xA0],
      [CHR 0xE1, CHR 0x9A, CHR 0x80],
      [CHR 0xE2, CHR 0x80, CHR 0x80], [CHR 0xE2, CHR 0x80, CHR 0x81],
      [CHR 0xE2, CHR 0x80, CHR 0x82], [CHR 0xE2, CHR 0x80, CHR 0x83],
      [CHR 0xE2, CHR 0x80, CHR 0x84], [CHR 0xE2, CHR 0x80, CHR 0x85],
      [CHR 0xE2, CHR 0x80, CHR 0x86], [CHR 0xE2, CHR 0x80, CHR 0x87],
      [CHR 0xE2, CHR 0x80, CHR 0x88], [CHR 0xE2, CHR 0x80, CHR 0x89],
      [CHR 0xE2, CHR 0x80, CHR 0x8A],
      [CHR 0xE2, CHR 0x80, CHR 0xA8], [CHR 0xE2, CHR 0x80, CHR 0xA9],
      [CHR 0xE2, CHR 0x80, CHR 0xAF],
      [CHR 0xE2, CHR 0x81, CHR 0x9F],
      [CHR 0xE3, CHR 0x80, CHR 0x80]]"

text \<open>The number of bytes of the white-space code point a string starts with, 0 if none.\<close>

fun spaceWidth :: "string list \<Rightarrow> string \<Rightarrow> nat" where
  "spaceWidth [] s = 0"
| "spaceWidth (r # rs) s =
     (if r \<noteq> [] \<and> take (length r) s = r then length r else spaceWidth rs s)"

text \<open>
  Trimming on the left drops white-space code points while the string starts with one.
  The recursion is on the bytes: \<open>skip\<close> counts the bytes of the current code point
  that are still to be dropped.
\<close>

fun trimLeftFrom :: "nat \<Rightarrow> string \<Rightarrow> string" where
  "trimLeftFrom skip [] = []"
| "trimLeftFrom (Suc skip) (c # cs) = trimLeftFrom skip cs"
| "trimLeftFrom 0 (c # cs) =
     (case spaceWidth spaceRunes (c # cs) of
        0 \<Rightarrow> c # cs
      | Suc k \<Rightarrow> trimLeftFrom k cs)"

definition TrimLeftSpace :: "string \<Rightarrow> string" where
  "TrimLeftSpace s = trimLeftFrom 0 s"

text \<open>
  Trimming on the right does the same from the end: a string ends with a white-space
  code point exactly when its reversal starts with the reversed encoding.
\<close>

fun trimRightFrom :: "nat \<Rightarrow> string \<Rightarrow> string" where
  "trimRightFrom skip [] = []"
| "trimRightFrom (Suc skip) (c # cs) = trimRightFrom skip cs"
| "trimRightFrom 0 (c # cs) =
     (case spaceWidth (map rev spaceRunes) (c # cs) of
        0 \<Rightarrow> c # cs
      | Suc k \<Rightarrow> trimRightFrom k cs)"

definition TrimRightSpace :: "string \<Rightarrow> string" where
  "TrimRightSpace s = rev (trimRightFrom 0 (rev s))"

definition TrimSpace :: "string \<Rightarrow> string" where
  "TrimSpace s = TrimRightSpace (TrimLeftSpace s)"

subsection \<open>strconv.ParseUint, strconv.ParseInt and strconv.ParseBool\<close>

datatype numError = ErrSyntax | ErrRange | ErrBitSize

definition isDigit :: "char \<Rightarrow> bool" where
  "isDigit c = (48 \<le> (of_char c :: nat) \<and> (of_char c :: nat) \<le> 57)"

definition digitVal :: "char \<Rightarrow> nat" where
  "digitVal c = of_char c - 48"

definition maxUint64 :: nat where
  "maxUint64 = 2 ^ 64 - 1"

text \<open>
  The digit loop of \<^verbatim>\<open>ParseUint\<close> in base 10 (where a letter is a digit too large
  for the base, and an underscore is not allowed): it reads the bytes from the left
  and returns at the first byte that is no digit, or at the first digit with which the
  number leaves 64 bits or exceeds \<open>maxVal\<close>. Go returns a number together with the
  error; so does the model.
\<close>

fun parseUintLoop :: "nat \<Rightarrow> nat \<Rightarrow> string \<Rightarrow> nat \<times> numError option" where
  "parseUintLoop maxVal n [] = (n, None)"
| "parseUintLoop maxVal n (c # cs) =
     (if \<not> isDigit c then (0, Some ErrSyntax)
      else if n \<ge> maxUint64 div 10 + 1 then (maxVal, Some ErrRange)
      else (let n1 = n * 10 + digitVal c
            in if n1 > maxUint64 \<or> n1 > maxVal then (maxVal, Some ErrRange)
               else parseUintLoop maxVal n1 cs))"

text \<open>\<^verbatim>\<open>strconv.IntSize\<close>, the width of \<^verbatim>\<open>int\<close> and \<^verbatim>\<open>uint\<close> on a 64-bit platform.\<close>

definition IntSize :: nat where
  "IntSize = 64"

definition ParseUint :: "string \<Rightarrow> nat \<Rightarrow> nat \<times> numError option" where
  "ParseUint s bitSize =
     (if s = [] then (0, Some ErrSyntax)
      else if bitSize > 64 then (0, Some ErrBitSize)
      else (let bits = (if bitSize = 0 then IntSize else bitSize)
            in parseUintLoop (2 ^ bits - 1) 0 s))"

text \<open>
  \<^verbatim>\<open>ParseInt\<close> strips one sign, parses the rest with \<^verbatim>\<open>ParseUint\<close>, passes on
  every error but a range error, and then compares with \<open>2 ^ (bitSize - 1)\<close>.
\<close>

definition ParseInt :: "string \<Rightarrow> nat \<Rightarrow> int \<times> numError option" where
  "ParseInt s0 bitSize =
     (if s0 = [] then (0, Some ErrSyntax)
      else (let neg = (hd s0 = CHR ''-'');
                s = (if hd s0 = CHR ''+'' \<or> hd s0 = CHR ''-'' then tl s0 else s0);
                (un, err) = ParseUint s bitSize
            in if err \<noteq> None \<and> err \<noteq> Some ErrRange then (0, err)
               else (let bits = (if bitSize = 0 then IntSize else bitSize);
                         cutoff = (2::nat) ^ (bits - 1)
                     in if \<not> neg \<and> un \<ge> cutoff then (int cutoff - 1, Some ErrRange)
                        else if neg \<and> un > cutoff then (- int cutoff, Some ErrRange)
                        else (if neg then - int un else int un, None))))"

definition ParseBool :: "string \<Rightarrow> bool \<times> numError option" where
  "ParseBool str =
     (if str \<in> set [''1'', ''t'', ''T'', ''TRUE'', ''true'', ''True''] then (True, None)
      else if str \<in> set [''0'', ''f'', ''F'', ''FALSE'', ''false'', ''False''] then (False, None)
      else (False, Some ErrSyntax))"

section \<open>Types, values and struct fields as reflection shows them\<close>

text \<open>
  The loader inspects the target through Go's \<^verbatim>\<open>reflect\<close> package. A field type is
  one of the built-in types below; \<open>TInt w\<close>, \<open>TUint w\<close> and \<open>TFloat w\<close> carry the width
  that \<^verbatim>\<open>Type.Bits()\<close> reports (8, 16, 32 or 64; \<^verbatim>\<open>int\<close> and \<^verbatim>\<open>uint\<close> are
  \<open>IntSize\<close> wide), \<open>TDuration\<close> is \<^verbatim>\<open>time.Duration\<close> (a named 64-bit integer), and
  \<open>TOther\<close> stands for every type of another kind (struct, pointer, interface, ...).
\<close>

datatype gotype =
    TString | TInt nat | TUint nat | TFloat nat | TBool | TDuration
  | TSlice gotype | TMap gotype gotype | TOther

datatype kind = KString | KInt | KUint | KFloat | KBool | KSlice | KMap | KOther

fun Kind :: "gotype \<Rightarrow> kind" where
  "Kind TString = KString"
| "Kind (TInt w) = KInt"
| "Kind (TUint w) = KUint"
| "Kind (TFloat w) = KFloat"
| "Kind TBool = KBool"
| "Kind TDuration = KInt"
| "Kind (TSlice t) = KSlice"
| "Kind (TMap k v) = KMap"
| "Kind TOther = KOther"

fun Bits :: "gotype \<Rightarrow> nat" where
  "Bits (TInt w) = w"
| "Bits (TUint w) = w"
| "Bits (TFloat w) = w"
| "Bits TDuration = 64"
| "Bits t = 0"

text \<open>\<^verbatim>\<open>Type.Elem()\<close> and \<^verbatim>\<open>Type.Key()\<close> panic on a type without elements or keys: \<open>None\<close>.\<close>

fun Elem :: "gotype \<Rightarrow> gotype option" where
  "Elem (TSlice t) = Some t"
| "Elem (TMap k v) = Some v"
| "Elem t = None"

fun Key :: "gotype \<Rightarrow> gotype option" where
  "Key (TMap k v) = Some k"
| "Key t = None"

text \<open>
  The content of a storage slot. Floating-point numbers are values of a type \<open>'f\<close>
  that the model does not look into. A Go map is a partial function on its keys.
\<close>

datatype 'f val =
    VString string | VInt int | VUint nat | VFloat 'f | VBool bool
  | VSlice "'f val list" | VMap "string \<Rightarrow> 'f val option" | VOther nat

text \<open>
  Storing an integer in a slot of width \<open>w\<close>, and converting an integer to a type of
  width \<open>w\<close>, keeps the low \<open>w\<close> bits (two's complement for signed types).
\<close>

definition wrapInt :: "nat \<Rightarrow> int \<Rightarrow> int" where
  "wrapInt w x = (x + 2 ^ (w - 1)) mod 2 ^ w - 2 ^ (w - 1)"

definition wrapUint :: "nat \<Rightarrow> nat \<Rightarrow> nat" where
  "wrapUint w x = x mod 2 ^ w"

text \<open>
  \<^verbatim>\<open>strconv.ParseFloat\<close>, \<^verbatim>\<open>time.ParseDuration\<close>, the conversion of a 64-bit float to
  a float type of a given width, and the float zero are parameters of the model.
\<close>

record 'f extern =
  ParseFloat :: "string \<Rightarrow> nat \<Rightarrow> 'f \<times> numError option"
  ParseDuration :: "string \<Rightarrow> int option"
  ConvertFloat :: "nat \<Rightarrow> 'f \<Rightarrow> 'f"
  FloatZero :: "'f"

text \<open>
  A struct field: its name, its tag and its type. The tag is the list of its
  \<^verbatim>\<open>key:"value"\<close> pairs; \<^verbatim>\<open>Tag.Get\<close> returns the value of the first pair with the key,
  and the empty string when there is none.
\<close>

record structField =
  Name :: string
  Tag :: "(string \<times> string) list"
  Type :: gotype

definition TagGet :: "(string \<times> string) list \<Rightarrow> string \<Rightarrow> string" where
  "TagGet tag k = (case map_of tag k of None \<Rightarrow> [] | Some v \<Rightarrow> v)"

text \<open>
  A \<^verbatim>\<open>reflect.Value\<close> of a field refers to the field's storage slot: \<open>content\<close> is what
  the slot holds, \<open>CanSet\<close> whether it may be written (the field is exported).
\<close>

record 'f rvalue =
  CanSet :: bool
  content :: "'f val"

record 'f fieldResolver =
  field :: structField
  value' :: "'f rvalue"
  rawValue :: string

definition keyValueSeparatorLimit :: nat where
  "keyValueSeparatorLimit = 2"

datatype cause =
    NumError numError
  | errUnsupportedMapValueType kind
  | ElemPanic

datatype error =
    errTargetMustBePointer
  | errTargetMustBePointerToStruct
  | errMissingRequiredField string string
  | errInvalidMapFormat string string
  | InvalidDuration string
  | InvalidInt string numError
  | InvalidUint string numError
  | InvalidFloat string numError
  | InvalidBool string numError
  | InvalidIntInSlice string nat numError
  | InvalidUintInSlice string nat numError
  | InvalidFloatInSlice string nat numError
  | InvalidBoolInSlice string nat numError
  | InvalidMapValue string string cause
  | ReflectPanic

text \<open>
  The target passed to the loader: no pointer, a pointer to something that is no struct,
  or a pointer to a struct, given by its fields in declaration order, each with its
  storage slot.
\<close>

datatype 'f target =
    NonPointer
  | PointerToNonStruct
  | PointerToStruct "(structField \<times> 'f rvalue) list"

section \<open>The loader of env.go\<close>

text \<open>
  Every method of \<^verbatim>\<open>fieldResolver\<close> has a pointer receiver and returns an error: the
  model takes the resolver and returns the resolver after the call together with the
  error (\<open>None\<close> for \<^verbatim>\<open>nil\<close>).
\<close>

definition validateStruct :: "'f target \<Rightarrow> error option" where
  "validateStruct target =
     (case target of
        NonPointer \<Rightarrow> Some errTargetMustBePointer
      | PointerToNonStruct \<Rightarrow> Some errTargetMustBePointerToStruct
      | PointerToStruct slots \<Rightarrow> None)"

definition resolveValue :: "'f fieldResolver \<Rightarrow> (string \<Rightarrow> string option) \<Rightarrow> 'f fieldResolver" where
  "resolveValue resolver envMap =
     (let resolver1 = resolver\<lparr>rawValue := []\<rparr>;
          envKey = TagGet (Tag (field resolver1)) ''env''
      in if envKey = [] \<or> \<not> CanSet (value' resolver1) then resolver1
         else (let raw = (case envMap envKey of
                            None \<Rightarrow> TagGet (Tag (field resolver1)) ''default''
                          | Some v \<Rightarrow> v)
               in resolver1\<lparr>rawValue := raw\<rparr>))"

definition isRequired :: "'f fieldResolver \<Rightarrow> bool" where
  "isRequired resolver = (TagGet (Tag (field resolver)) ''required'' = ''true'')"

text \<open>
  Writing a new content into the slot the resolver refers to. \<^verbatim>\<open>populateStruct\<close> calls
  a setter only with a raw value that is not empty, which \<^verbatim>\<open>resolveValue\<close> leaves only
  for a writable slot; writing to a slot that is not writable is not modelled.
\<close>

definition Set :: "'f fieldResolver \<Rightarrow> 'f val \<Rightarrow> 'f fieldResolver" where
  "Set resolver v = resolver\<lparr>value' := (value' resolver)\<lparr>content := v\<rparr>\<rparr>"

definition setString :: "'f fieldResolver \<Rightarrow> 'f fieldResolver \<times> error option" where
  "setString resolver = (Set resolver (VString (rawValue resolver)), None)"

definition setDuration :: "'f extern \<Rightarrow> 'f fieldResolver \<Rightarrow> 'f fieldResolver \<times> error option" where
  "setDuration ext resolver =
     (case ParseDuration ext (rawValue resolver) of
        None \<Rightarrow> (resolver, Some (InvalidDuration (Name (field resolver))))
      | Some dur \<Rightarrow> (Set resolver (VInt (wrapInt 64 dur)), None))"

definition setInt :: "'f fieldResolver \<Rightarrow> 'f fieldResolver \<times> error option" where
  "setInt resolver =
     (let bits = Bits (Type (field resolver))
      in case ParseInt (rawValue resolver) bits of
           (intVal, Some err) \<Rightarrow> (resolver, Some (InvalidInt (Name (field resolver)) err))
         | (intVal, None) \<Rightarrow> (Set resolver (VInt (wrapInt bits intVal)), None))"

definition setIntOrDuration :: "'f extern \<Rightarrow> 'f fieldResolver \<Rightarrow> 'f fieldResolver \<times> error option" where
  "setIntOrDuration ext resolver =
     (if Type (field resolver) = TDuration then setDuration ext resolver
      else setInt resolver)"

definition setUint :: "'f fieldResolver \<Rightarrow> 'f fieldResolver \<times> error option" where
  "setUint resolver =
     (let bits = Bits (Type (field resolver))
      in case ParseUint (rawValue resolver) bits of
           (uintVal, Some err) \<Rightarrow> (resolver, Some (InvalidUint (Name (field resolver)) err))
         | (uintVal, None) \<Rightarrow> (Set resolver (VUint (wrapUint bits uintVal)), None))"

definition setFloat :: "'f extern \<Rightarrow> 'f fieldResolver \<Rightarrow> 'f fieldResolver \<times> error option" where
  "setFloat ext resolver =
     (let bits = Bits (Type (field resolver))
      in case ParseFloat ext (rawValue resolver) bits of
           (floatVal, Some err) \<Rightarrow> (resolver, Some (InvalidFloat (Name (field resolver)) err))
         | (floatVal, None) \<Rightarrow> (Set resolver (VFloat (ConvertFloat ext bits floatVal)), None))"

definition setBool :: "'f fieldResolver \<Rightarrow> 'f fieldResolver \<times> error option" where
  "setBool resolver =
     (case ParseBool (rawValue resolver) of
        (boolVal, Some err) \<Rightarrow> (resolver, Some (InvalidBool (Name (field resolver)) err))
      | (boolVal, None) \<Rightarrow> (Set resolver (VBool boolVal), None))"

subsection \<open>Slices\<close>

text \<open>
  The four typed slice setters share one loop: \<open>fillSlice\<close> parses the retained parts
  from the left, writes element \<open>i\<close> of the local slice, and stops at the first part
  that does not parse, with the error for index \<open>i\<close>.
\<close>

fun fillSlice ::
  "(string \<Rightarrow> 'f val \<times> numError option) \<Rightarrow> (nat \<Rightarrow> numError \<Rightarrow> error) \<Rightarrow>
   nat \<Rightarrow> string list \<Rightarrow> 'f val list \<Rightarrow> error + 'f val list" where
  "fillSlice parse mkErr i [] slice = Inr slice"
| "fillSlice parse mkErr i (part # rest) slice =
     (case parse part of
        (v, Some err) \<Rightarrow> Inl (mkErr i err)
      | (v, None) \<Rightarrow> fillSlice parse mkErr (Suc i) rest (slice[i := v]))"

text \<open>
  What the typed setters do around the loop: drop the empty parts, make a local slice of
  as many zero elements as parts are left, fill it, and only then store it in the slot.
\<close>

definition setTypedSlice ::
  "'f fieldResolver \<Rightarrow> string list \<Rightarrow> 'f val \<Rightarrow> (string \<Rightarrow> 'f val \<times> numError option) \<Rightarrow>
   (nat \<Rightarrow> numError \<Rightarrow> error) \<Rightarrow> 'f fieldResolver \<times> error option" where
  "setTypedSlice resolver parts zero parse mkErr =
     (let validParts = filter (\<lambda>part. part \<noteq> []) parts;
          slice = replicate (length validParts) zero
      in case fillSlice parse mkErr 0 validParts slice of
           Inl err \<Rightarrow> (resolver, Some err)
         | Inr slice' \<Rightarrow> (Set resolver (VSlice slice'), None))"

definition setIntSlice :: "'f fieldResolver \<Rightarrow> string list \<Rightarrow> 'f fieldResolver \<times> error option" where
  "setIntSlice resolver parts =
     (case Elem (Type (field resolver)) of
        None \<Rightarrow> (resolver, Some ReflectPanic)
      | Some elemType \<Rightarrow>
          setTypedSlice resolver parts (VInt 0)
            (\<lambda>part. case ParseInt part (Bits elemType) of
                       (intVal, err) \<Rightarrow> (VInt (wrapInt (Bits elemType) intVal), err))
            (InvalidIntInSlice (Name (field resolver))))"

definition setUintSlice :: "'f fieldResolver \<Rightarrow> string list \<Rightarrow> 'f fieldResolver \<times> error option" where
  "setUintSlice resolver parts =
     (case Elem (Type (field resolver)) of
        None \<Rightarrow> (resolver, Some ReflectPanic)
      | Some elemType \<Rightarrow>
          setTypedSlice resolver parts (VUint 0)
            (\<lambda>part. case ParseUint part (Bits elemType) of
                       (uintVal, err) \<Rightarrow> (VUint (wrapUint (Bits elemType) uintVal), err))
            (InvalidUintInSlice (Name (field resolver))))"

definition setFloatSlice ::
  "'f extern \<Rightarrow> 'f fieldResolver \<Rightarrow> string list \<Rightarrow> 'f fieldResolver \<times> error option" where
  "setFloatSlice ext resolver parts =
     (case Elem (Type (field resolver)) of
        None \<Rightarrow> (resolver, Some ReflectPanic)
      | Some elemType \<Rightarrow>
          setTypedSlice resolver parts (VFloat (FloatZero ext))
            (\<lambda>part. case ParseFloat ext part (Bits elemType) of
                       (floatVal, err) \<Rightarrow> (VFloat (ConvertFloat ext (Bits elemType) floatVal), err))
            (InvalidFloatInSlice (Name (field resolver))))"

definition setBoolSlice :: "'f fieldResolver \<Rightarrow> string list \<Rightarrow> 'f fieldResolver \<times> error option" where
  "setBoolSlice resolver parts =
     setTypedSlice resolver parts (VBool False)
       (\<lambda>part. case ParseBool part of (boolVal, err) \<Rightarrow> (VBool boolVal, err))
       (InvalidBoolInSlice (Name (field resolver)))"

definition setSlice :: "'f extern \<Rightarrow> 'f fieldResolver \<Rightarrow> 'f fieldResolver \<times> error option" where
  "setSlice ext resolver =
     (case Elem (Type (field resolver)) of
        None \<Rightarrow> (resolver, Some ReflectPanic)
      | Some elemType \<Rightarrow>
          (let elemKind = Kind elemType;
               parts = map TrimSpace (Split (rawValue resolver) CHR '','')
           in case elemKind of
                KString \<Rightarrow> (Set resolver (VSlice (map VString parts)), None)
              | KInt \<Rightarrow> setIntSlice resolver parts
              | KUint \<Rightarrow> setUintSlice resolver parts
              | KFloat \<Rightarrow> setFloatSlice ext resolver parts
              | KBool \<Rightarrow> setBoolSlice resolver parts
              | _ \<Rightarrow> (resolver, None)))"

subsection \<open>Maps\<close>

definition convertMapValue ::
  "'f extern \<Rightarrow> 'f fieldResolver \<Rightarrow> string \<Rightarrow> kind \<Rightarrow> cause + 'f val" where
  "convertMapValue ext resolver v valueKind =
     (case valueKind of
        KString \<Rightarrow> Inr (VString v)
      | KInt \<Rightarrow>
          (case ParseInt v 64 of
             (intVal, Some err) \<Rightarrow> Inl (NumError err)
           | (intVal, None) \<Rightarrow>
               (case Elem (Type (field resolver)) of
                  None \<Rightarrow> Inl ElemPanic
                | Some elemType \<Rightarrow> Inr (VInt (wrapInt (Bits elemType) intVal))))
      | KUint \<Rightarrow>
          (case ParseUint v 64 of
             (uintVal, Some err) \<Rightarrow> Inl (NumError err)
           | (uintVal, None) \<Rightarrow>
               (case Elem (Type (field resolver)) of
                  None \<Rightarrow> Inl ElemPanic
                | Some elemType \<Rightarrow> Inr (VUint (wrapUint (Bits elemType) uintVal))))
      | KFloat \<Rightarrow>
          (case ParseFloat ext v 64 of
             (floatVal, Some err) \<Rightarrow> Inl (NumError err)
           | (floatVal, None) \<Rightarrow>
               (case Elem (Type (field resolver)) of
                  None \<Rightarrow> Inl ElemPanic
                | Some elemType \<Rightarrow> Inr (VFloat (ConvertFloat ext (Bits elemType) floatVal))))
      | KBool \<Rightarrow>
          (case ParseBool v of
             (boolVal, Some err) \<Rightarrow> Inl (NumError err)
           | (boolVal, None) \<Rightarrow> Inr (VBool boolVal))
      | _ \<Rightarrow> Inl (errUnsupportedMapValueType valueKind))"

text \<open>
  The loop of \<^verbatim>\<open>setMap\<close> over the pair tokens, with the local map \<open>result\<close>: it stops
  at the first token without a separator and at the first value that does not convert.
\<close>

fun setMapLoop ::
  "'f extern \<Rightarrow> 'f fieldResolver \<Rightarrow> kind \<Rightarrow> string list \<Rightarrow> (string \<Rightarrow> 'f val option) \<Rightarrow>
   error + (string \<Rightarrow> 'f val option)" where
  "setMapLoop ext resolver valueKind [] result = Inr result"
| "setMapLoop ext resolver valueKind (pair # rest) result =
     (let kv = SplitN (TrimSpace pair) CHR '':'' keyValueSeparatorLimit
      in if length kv \<noteq> keyValueSeparatorLimit
         then Inl (errInvalidMapFormat (Name (field resolver)) pair)
         else (let key = TrimSpace (kv ! 0);
                   v = TrimSpace (kv ! 1)
               in case convertMapValue ext resolver v valueKind of
                    Inl err \<Rightarrow> Inl (InvalidMapValue (Name (field resolver)) key err)
                  | Inr convertedValue \<Rightarrow>
                      setMapLoop ext resolver valueKind rest (result(key \<mapsto> convertedValue))))"

definition setMap :: "'f extern \<Rightarrow> 'f fieldResolver \<Rightarrow> 'f fieldResolver \<times> error option" where
  "setMap ext resolver =
     (case (Key (Type (field resolver)), Elem (Type (field resolver))) of
        (Some keyType, Some elemType) \<Rightarrow>
          (if Kind keyType \<noteq> KString then (resolver, None)
           else (let pairs = Split (rawValue resolver) CHR '',''
                 in case setMapLoop ext resolver (Kind elemType) pairs Map.empty of
                      Inl err \<Rightarrow> (resolver, Some err)
                    | Inr result \<Rightarrow> (Set resolver (VMap result), None)))
      | _ \<Rightarrow> (resolver, Some ReflectPanic))"

subsection \<open>Dispatch on the field's kind, and the loop over the fields\<close>

definition setValue :: "'f extern \<Rightarrow> 'f fieldResolver \<Rightarrow> 'f fieldResolver \<times> error option" where
  "setValue ext resolver =
     (case Kind (Type (field resolver)) of
        KString \<Rightarrow> setString resolver
      | KInt \<Rightarrow> setIntOrDuration ext resolver
      | KUint \<Rightarrow> setUint resolver
      | KFloat \<Rightarrow> setFloat ext resolver
      | KBool \<Rightarrow> setBool resolver
      | KSlice \<Rightarrow> setSlice ext resolver
      | KMap \<Rightarrow> setMap ext resolver
      | KOther \<Rightarrow> (resolver, None))"

text \<open>
  One round of the loop of \<^verbatim>\<open>populateStruct\<close> on a field and its slot. The resolver
  variable is shared by all rounds, so \<open>raw0\<close> is the raw value the round before left
  in it. The round returns the slot after it, the raw value it leaves, and its error.
\<close>

definition populateField ::
  "'f extern \<Rightarrow> (string \<Rightarrow> string option) \<Rightarrow> string \<Rightarrow> structField \<times> 'f rvalue \<Rightarrow>
   (structField \<times> 'f rvalue) \<times> string \<times> error option" where
  "populateField ext envMap raw0 slot =
     (let resolver = resolveValue \<lparr>field = fst slot, value' = snd slot, rawValue = raw0\<rparr> envMap
      in if rawValue resolver = [] \<and> isRequired resolver
         then (slot, rawValue resolver,
               Some (errMissingRequiredField (Name (field resolver))
                       (TagGet (Tag (field resolver)) ''env'')))
         else if rawValue resolver = [] then (slot, rawValue resolver, None)
         else (case setValue ext resolver of
                 (resolver', err) \<Rightarrow> ((fst slot, value' resolver'), rawValue resolver', err)))"

fun populateFields ::
  "'f extern \<Rightarrow> (string \<Rightarrow> string option) \<Rightarrow> string \<Rightarrow> (structField \<times> 'f rvalue) list \<Rightarrow>
   (structField \<times> 'f rvalue) list \<times> error option" where
  "populateFields ext envMap raw0 [] = ([], None)"
| "populateFields ext envMap raw0 (slot # rest) =
     (case populateField ext envMap raw0 slot of
        (slot', raw1, Some err) \<Rightarrow> (slot' # rest, Some err)
      | (slot', raw1, None) \<Rightarrow>
          (case populateFields ext envMap raw1 rest of
             (rest', result) \<Rightarrow> (slot' # rest', result)))"

text \<open>\<^verbatim>\<open>populateStruct\<close> returns the target after the call and the error.\<close>

definition populateStruct ::
  "'f extern \<Rightarrow> (string \<Rightarrow> string option) \<Rightarrow> 'f target \<Rightarrow> 'f target \<times> error option" where
  "populateStruct ext envMap target =
     (case validateStruct target of
        Some err \<Rightarrow> (target, Some err)
      | None \<Rightarrow>
          (case target of
             PointerToStruct slots \<Rightarrow>
               (case populateFields ext envMap [] slots of
                  (slots', result) \<Rightarrow> (PointerToStruct slots', result))
           | _ \<Rightarrow> (target, None)))"

text \<open>
  Externals for the concrete examples below: a float parser and a duration parser that
  reject every string. No example converts a float or a duration.
\<close>

definition noExtern :: "unit extern" where
  "noExtern = \<lparr>ParseFloat = (\<lambda>s bits. ((), Some ErrSyntax)),
               ParseDuration = (\<lambda>s. None),
               ConvertFloat = (\<lambda>bits x. x),
               FloatZero = ()\<rparr>"

text \<open>Reading a key of a map held by a slot.\<close>

definition mapIndex :: "'f val \<Rightarrow> string \<Rightarrow> 'f val option" where
  "mapIndex v k = (case v of VMap m \<Rightarrow> m k | _ \<Rightarrow> None)"

text \<open>
  The key and the value text that the loop of \<^verbatim>\<open>setMap\<close> reads from a pair token:
  the trimmed parts before and after the first separator of the trimmed token.
\<close>

definition pairKey :: "string \<Rightarrow> string" where
  "pairKey pair = TrimSpace (SplitN (TrimSpace pair) CHR '':'' keyValueSeparatorLimit ! 0)"

definition pairValue :: "string \<Rightarrow> string" where
  "pairValue pair = TrimSpace (SplitN (TrimSpace pair) CHR '':'' keyValueSeparatorLimit ! 1)"

section \<open>Basic facts about the loader\<close>

lemma SplitN_2:
  "SplitN s sep 2 =
     (if sep \<in> set s
      then [takeWhile (\<lambda>c. c \<noteq> sep) s, tl (dropWhile (\<lambda>c. c \<noteq> sep) s)]
      else [s])"
  by (simp add: numeral_2_eq_2)

lemma Split_not_Nil: "Split s sep \<noteq> []"
  by (induction s) (auto split: list.splits)

lemma resolveValue_eq:
  "resolveValue \<lparr>field = f, value' = v, rawValue = raw0\<rparr> envMap =
     \<lparr>field = f, value' = v,
      rawValue =
        (if TagGet (Tag f) ''env'' = [] \<or> \<not> CanSet v then []
         else case envMap (TagGet (Tag f) ''env'') of
                None \<Rightarrow> TagGet (Tag f) ''default''
              | Some x \<Rightarrow> x)\<rparr>"
  by (simp add: resolveValue_def Let_def split: option.splits)


lemma fillSlice_error:
  "fillSlice parse mkErr i parts slice = Inl e \<Longrightarrow> \<exists>j err. e = mkErr j err"
  by (induction parts arbitrary: i slice) (auto split: prod.splits option.splits)

lemma setTypedSlice_error:
  "setTypedSlice r parts zero parse mkErr = (r', Some e) \<Longrightarrow>
     r' = r \<and> (\<exists>j err. e = mkErr j err)"
  unfolding setTypedSlice_def
  by (auto simp: Let_def split: sum.splits dest: fillSlice_error)

lemma setMapLoop_error:
  "setMapLoop ext r k pairs m = Inl e \<Longrightarrow>
     (\<exists>p. e = errInvalidMapFormat (Name (field r)) p) \<or>
     (\<exists>key c. e = InvalidMapValue (Name (field r)) key c)"
  by (induction pairs arbitrary: m) (auto simp: Let_def split: if_splits sum.splits)

lemma setSlice_error:
  "setSlice ext r = (r', Some e) \<Longrightarrow>
     r' = r \<and> e \<noteq> errMissingRequiredField n k"
  unfolding setSlice_def setIntSlice_def setUintSlice_def setFloatSlice_def setBoolSlice_def
  by (auto simp: Let_def split: option.splits kind.splits dest!: setTypedSlice_error)

lemma setMap_error:
  "setMap ext r = (r', Some e) \<Longrightarrow>
     r' = r \<and> e \<noteq> errMissingRequiredField n k"
  unfolding setMap_def
  by (auto simp: Let_def split: option.splits if_splits sum.splits dest!: setMapLoop_error)



lemma populateField_raw0:
  "populateField ext envMap raw0 slot = populateField ext envMap raw1 slot"
  by (simp add: populateField_def resolveValue_eq)

lemma populateFields_raw0:
  "populateFields ext envMap raw0 slots = populateFields ext envMap raw1 slots"
  by (cases slots) (simp_all add: populateField_raw0 [of ext envMap raw0 _ raw1])




section \<open>Resolution of the raw value\<close>

text \<open>
  C5: for a writable field with a source key that is present in the source mapping, the
  resolved raw value is the mapping's value for that key, also when that value is the
  empty string. If the value is the empty string and the field is not required, the
  round of the loop neither applies the default nor converts anything: the field keeps
  its value, no error is raised, and the loop goes on with the fields after it.
\<close>

theorem C5_present_key_is_raw_value:
  assumes "CanSet v" and "TagGet (Tag f) ''env'' \<noteq> []"
    and "envMap (TagGet (Tag f) ''env'') = Some x"
  shows "rawValue (resolveValue \<lparr>field = f, value' = v, rawValue = raw0\<rparr> envMap) = x \<and>
    (x = [] \<and> TagGet (Tag f) ''required'' \<noteq> ''true'' \<longrightarrow>
       populateField ext envMap raw0 (f, v) = ((f, v), [], None) \<and>
       populateFields ext envMap raw0 ((f, v) # rest) =
         (case populateFields ext envMap raw0 rest of
            (rest', result) \<Rightarrow> ((f, v) # rest', result)))"
proof -
  have raw: "rawValue (resolveValue \<lparr>field = f, value' = v, rawValue = raw0\<rparr> envMap) = x"
    using assms by (simp add: resolveValue_eq)
  have step: "populateField ext envMap raw0 (f, v) = ((f, v), [], None)"
    if "x = []" and "TagGet (Tag f) ''required'' \<noteq> ''true''"
    using that assms by (simp add: populateField_def resolveValue_eq isRequired_def)
  have "populateFields ext envMap raw0 ((f, v) # rest) =
         (case populateFields ext envMap raw0 rest of
            (rest', result) \<Rightarrow> ((f, v) # rest', result))"
    if "x = []" and "TagGet (Tag f) ''required'' \<noteq> ''true''"
    using step [OF that] populateFields_raw0 [of ext envMap "[]" rest raw0] by simp
  with raw step show ?thesis by blast
qed

text \<open>
  The case \<^verbatim>\<open>CASE_5\<close> of the repository's string test, with a default added: the key is
  present with the empty string, and the field stays as it was.
\<close>

theorem C5_witness:
  "CanSet \<lparr>CanSet = True, content = VString ''''\<rparr> \<and>
   TagGet [(''env'', ''CASE_5''), (''default'', ''fallback'')] ''env'' \<noteq> [] \<and>
   [''CASE_5'' \<mapsto> ''''] ''CASE_5'' = Some [] \<and>
   populateField noExtern [''CASE_5'' \<mapsto> '''']  []
     (\<lparr>Name = ''Case5'', Tag = [(''env'', ''CASE_5''), (''default'', ''fallback'')], Type = TString\<rparr>,
      \<lparr>CanSet = True, content = VString ''''\<rparr>) =
   ((\<lparr>Name = ''Case5'', Tag = [(''env'', ''CASE_5''), (''default'', ''fallback'')], Type = TString\<rparr>,
      \<lparr>CanSet = True, content = VString ''''\<rparr>), [], None)"
  using C5_present_key_is_raw_value
    [of "\<lparr>CanSet = True, content = VString ''''\<rparr>"
        "\<lparr>Name = ''Case5'', Tag = [(''env'', ''CASE_5''), (''default'', ''fallback'')], Type = TString\<rparr>"
        "[''CASE_5'' \<mapsto> '''']" "[]" "[]" noExtern "[]"]
  by (simp add: TagGet_def)

section \<open>Integer overflow in scalar fields\<close>

text \<open>
  C7: converting the raw value \<^verbatim>\<open>256\<close> into a scalar field of 8-bit width fails with
  the scalar conversion error for a range error, for a signed field (\<open>InvalidInt\<close>) and
  for an unsigned field (\<open>InvalidUint\<close>); the resolver and with it the field's slot are
  as before, so no wrapped-around value is stored. The same holds for the round of
  \<^verbatim>\<open>populateStruct\<close> on a writable field whose source key maps to \<^verbatim>\<open>256\<close>.
\<close>

theorem C7_overflow_8bit:
  "setInt \<lparr>field = \<lparr>Name = n, Tag = t, Type = TInt 8\<rparr>, value' = v, rawValue = ''256''\<rparr> =
     (\<lparr>field = \<lparr>Name = n, Tag = t, Type = TInt 8\<rparr>, value' = v, rawValue = ''256''\<rparr>,
      Some (InvalidInt n ErrRange)) \<and>
   setUint \<lparr>field = \<lparr>Name = n, Tag = t, Type = TUint 8\<rparr>, value' = v, rawValue = ''256''\<rparr> =
     (\<lparr>field = \<lparr>Name = n, Tag = t, Type = TUint 8\<rparr>, value' = v, rawValue = ''256''\<rparr>,
      Some (InvalidUint n ErrRange)) \<and>
   (CanSet v \<and> TagGet t ''env'' \<noteq> [] \<and> envMap (TagGet t ''env'') = Some ''256'' \<longrightarrow>
      populateField ext envMap raw0 (\<lparr>Name = n, Tag = t, Type = TInt 8\<rparr>, v) =
        ((\<lparr>Name = n, Tag = t, Type = TInt 8\<rparr>, v), ''256'', Some (InvalidInt n ErrRange)) \<and>
      populateField ext envMap raw0 (\<lparr>Name = n, Tag = t, Type = TUint 8\<rparr>, v) =
        ((\<lparr>Name = n, Tag = t, Type = TUint 8\<rparr>, v), ''256'', Some (InvalidUint n ErrRange)))"
proof -
  have pi: "ParseInt ''256'' 8 = (127, Some ErrRange)"
    by (simp add: ParseInt_def ParseUint_def isDigit_def digitVal_def maxUint64_def)
  have pu: "ParseUint ''256'' 8 = (255, Some ErrRange)"
    by (simp add: ParseUint_def isDigit_def digitVal_def maxUint64_def)
  have si: "setInt \<lparr>field = \<lparr>Name = n, Tag = t, Type = TInt 8\<rparr>, value' = v, rawValue = ''256''\<rparr> =
     (\<lparr>field = \<lparr>Name = n, Tag = t, Type = TInt 8\<rparr>, value' = v, rawValue = ''256''\<rparr>,
      Some (InvalidInt n ErrRange))"
    by (simp add: setInt_def pi)
  have su: "setUint \<lparr>field = \<lparr>Name = n, Tag = t, Type = TUint 8\<rparr>, value' = v, rawValue = ''256''\<rparr> =
     (\<lparr>field = \<lparr>Name = n, Tag = t, Type = TUint 8\<rparr>, value' = v, rawValue = ''256''\<rparr>,
      Some (InvalidUint n ErrRange))"
    by (simp add: setUint_def pu)
  have "populateField ext envMap raw0 (\<lparr>Name = n, Tag = t, Type = TInt 8\<rparr>, v) =
        ((\<lparr>Name = n, Tag = t, Type = TInt 8\<rparr>, v), ''256'', Some (InvalidInt n ErrRange))"
    if "CanSet v" "TagGet t ''env'' \<noteq> []" "envMap (TagGet t ''env'') = Some ''256''"
    using that
    by (simp add: populateField_def resolveValue_eq isRequired_def setValue_def
          setIntOrDuration_def si)
  moreover have "populateField ext envMap raw0 (\<lparr>Name = n, Tag = t, Type = TUint 8\<rparr>, v) =
        ((\<lparr>Name = n, Tag = t, Type = TUint 8\<rparr>, v), ''256'', Some (InvalidUint n ErrRange))"
    if "CanSet v" "TagGet t ''env'' \<noteq> []" "envMap (TagGet t ''env'') = Some ''256''"
    using that
    by (simp add: populateField_def resolveValue_eq isRequired_def setValue_def su)
  ultimately show ?thesis using si su by blast
qed

text \<open>The field \<^verbatim>\<open>Int8Field\<close> of the repository's overflow test.\<close>

theorem C7_witness:
  "CanSet \<lparr>CanSet = True, content = VInt 0\<rparr> \<and>
   TagGet [(''env'', ''INT8_OVERFLOW'')] ''env'' \<noteq> [] \<and>
   [''INT8_OVERFLOW'' \<mapsto> ''256''] (TagGet [(''env'', ''INT8_OVERFLOW'')] ''env'') = Some ''256'' \<and>
   populateField noExtern [''INT8_OVERFLOW'' \<mapsto> ''256''] []
     (\<lparr>Name = ''Int8Field'', Tag = [(''env'', ''INT8_OVERFLOW'')], Type = TInt 8\<rparr>,
      \<lparr>CanSet = True, content = VInt 0\<rparr>) =
   ((\<lparr>Name = ''Int8Field'', Tag = [(''env'', ''INT8_OVERFLOW'')], Type = TInt 8\<rparr>,
      \<lparr>CanSet = True, content = VInt 0\<rparr>), ''256'', Some (InvalidInt ''Int8Field'' ErrRange))"
  using C7_overflow_8bit
    [of "''Int8Field''" "[(''env'', ''INT8_OVERFLOW'')]" "\<lparr>CanSet = True, content = VInt 0\<rparr>"
        "[''INT8_OVERFLOW'' \<mapsto> ''256'']" noExtern "[]"]
  by (simp add: TagGet_def)

section \<open>The required tag\<close>



section \<open>Maps: duplicate keys\<close>

text \<open>Facts collected for evaluating the library functions on concrete strings.\<close>

lemmas trim_eval = TrimSpace_def TrimLeftSpace_def TrimRightSpace_def spaceRunes_def
lemmas parse_eval = ParseInt_def ParseUint_def ParseBool_def isDigit_def digitVal_def
  maxUint64_def IntSize_def

lemma SplitN_2_length: "length (SplitN s sep 2) = 2 \<longleftrightarrow> sep \<in> set s"
  by (simp add: SplitN_2)

lemma setMapLoop_Cons:
  "setMapLoop ext r k (pair # rest) m0 =
     (if CHR '':'' \<in> set (TrimSpace pair)
      then (case convertMapValue ext r (pairValue pair) k of
              Inl err \<Rightarrow> Inl (InvalidMapValue (Name (field r)) (pairKey pair) err)
            | Inr cv \<Rightarrow> setMapLoop ext r k rest (m0(pairKey pair \<mapsto> cv)))
      else Inl (errInvalidMapFormat (Name (field r)) pair))"
  by (simp add: Let_def keyValueSeparatorLimit_def SplitN_2_length pairKey_def pairValue_def
        cong: sum.case_cong)









section \<open>Slices and maps: a failed conversion writes nothing\<close>

text \<open>
  C9: when the conversion of the raw value of a slice or map field returns an error, the
  resolver, and with it the field's storage slot, is what it was before the call: the
  local slice or map under construction is never stored. So the round of
  \<^verbatim>\<open>populateStruct\<close> on a slice or map field that ends with an error leaves the slot
  unchanged.
\<close>

theorem C9_failed_collection_conversion_writes_nothing:
  "((Kind (Type (field r)) = KSlice \<or> Kind (Type (field r)) = KMap) \<and>
      setValue ext r = (r', Some e) \<longrightarrow> r' = r) \<and>
   ((Kind (Type f) = KSlice \<or> Kind (Type f) = KMap) \<and>
      populateField ext envMap raw0 (f, v) = (slot', raw1, Some e) \<longrightarrow> slot' = (f, v))"
proof -
  have a: "r' = r"
    if "Kind (Type (field r)) = KSlice \<or> Kind (Type (field r)) = KMap"
      and "setValue ext r = (r', Some e)" for r r'
    using that setSlice_error [of ext r r' e] setMap_error [of ext r r' e]
    by (auto simp: setValue_def)
  have b: "slot' = (f, v)"
    if k: "Kind (Type f) = KSlice \<or> Kind (Type f) = KMap"
      and p: "populateField ext envMap raw0 (f, v) = (slot', raw1, Some e)"
  proof -
    define res where "res = resolveValue \<lparr>field = f, value' = v, rawValue = raw0\<rparr> envMap"
    have fv: "field res = f" "value' res = v"
      by (simp_all add: res_def resolveValue_eq)
    show ?thesis
    proof (cases "rawValue res = []")
      case True
      with p show ?thesis
        by (auto simp: populateField_def res_def [symmetric] split: if_splits)
    next
      case False
      obtain r' err where sv: "setValue ext res = (r', err)"
        by (cases "setValue ext res") auto
      with p False have "slot' = (f, value' r')" "err = Some e"
        by (auto simp: populateField_def res_def [symmetric])
      with a [of res r'] k sv fv show ?thesis by simp
    qed
  qed
  from a b show ?thesis by blast
qed

lemmas loader_eval = populateStruct_def validateStruct_def populateField_def resolveValue_eq
  isRequired_def TagGet_def setValue_def setString_def setInt_def setUint_def setBool_def
  setIntOrDuration_def setSlice_def setIntSlice_def setUintSlice_def setBoolSlice_def
  setTypedSlice_def setMap_def convertMapValue_def Set_def keyValueSeparatorLimit_def
  SplitN_2 wrapInt_def wrapUint_def mapIndex_def Let_def

text \<open>
  An integer slice whose second part is no number: the conversion fails at index 1 and
  the slot keeps the slice it held.
\<close>

theorem C9_witness:
  "(Kind (Type (field \<lparr>field = \<lparr>Name = ''Ports'', Tag = [(''env'', ''PORTS'')], Type = TSlice (TInt 64)\<rparr>,
       value' = \<lparr>CanSet = True, content = VSlice [VInt 7]\<rparr>, rawValue = ''1,x,3''\<rparr>)) = KSlice \<or>
    Kind (Type (field \<lparr>field = \<lparr>Name = ''Ports'', Tag = [(''env'', ''PORTS'')], Type = TSlice (TInt 64)\<rparr>,
       value' = \<lparr>CanSet = True, content = VSlice [VInt 7]\<rparr>, rawValue = ''1,x,3''\<rparr>)) = KMap) \<and>
   snd (setValue noExtern
     \<lparr>field = \<lparr>Name = ''Ports'', Tag = [(''env'', ''PORTS'')], Type = TSlice (TInt 64)\<rparr>,
       value' = \<lparr>CanSet = True, content = VSlice [VInt 7]\<rparr>, rawValue = ''1,x,3''\<rparr>) =
     Some (InvalidIntInSlice ''Ports'' 1 ErrSyntax) \<and>
   fst (setValue noExtern
     \<lparr>field = \<lparr>Name = ''Ports'', Tag = [(''env'', ''PORTS'')], Type = TSlice (TInt 64)\<rparr>,
       value' = \<lparr>CanSet = True, content = VSlice [VInt 7]\<rparr>, rawValue = ''1,x,3''\<rparr>) =
     \<lparr>field = \<lparr>Name = ''Ports'', Tag = [(''env'', ''PORTS'')], Type = TSlice (TInt 64)\<rparr>,
       value' = \<lparr>CanSet = True, content = VSlice [VInt 7]\<rparr>, rawValue = ''1,x,3''\<rparr>"
proof -
  define r :: "unit fieldResolver" where
    "r = \<lparr>field = \<lparr>Name = ''Ports'', Tag = [(''env'', ''PORTS'')], Type = TSlice (TInt 64)\<rparr>,
       value' = \<lparr>CanSet = True, content = VSlice [VInt 7]\<rparr>, rawValue = ''1,x,3''\<rparr>"
  have k: "Kind (Type (field r)) = KSlice \<or> Kind (Type (field r)) = KMap"
    by (simp add: r_def)
  have e: "snd (setValue noExtern r) = Some (InvalidIntInSlice ''Ports'' 1 ErrSyntax)"
    by (simp add: r_def loader_eval trim_eval parse_eval)
  then have "setValue noExtern r =
      (fst (setValue noExtern r), Some (InvalidIntInSlice ''Ports'' 1 ErrSyntax))"
    by (cases "setValue noExtern r") simp
  with C9_failed_collection_conversion_writes_nothing
    [of r noExtern "fst (setValue noExtern r)" "InvalidIntInSlice ''Ports'' 1 ErrSyntax"] k
  have "fst (setValue noExtern r) = r" by blast
  with k e show ?thesis unfolding r_def by simp
qed

section \<open>Maps with an unsupported value type\<close>

text \<open>
  C3, as the claim states it, fails: for a field of a map type with string keys and a
  value type of another kind than string, integer, unsigned, float or bool, with the
  raw value \<^verbatim>\<open>a:b\<close>, \<^verbatim>\<open>populateStruct\<close> returns an error, the invalid-map-value error
  caused by \<open>errUnsupportedMapValueType\<close>.
\<close>

theorem C3_counterexample:
  "snd (populateStruct noExtern [''M'' \<mapsto> ''a:b'']
     (PointerToStruct
        [(\<lparr>Name = ''M'', Tag = [(''env'', ''M'')], Type = TMap TString TOther\<rparr>,
          \<lparr>CanSet = True, content = VOther 0\<rparr>)])) =
   Some (InvalidMapValue ''M'' ''a'' (errUnsupportedMapValueType KOther))"
  by (simp add: loader_eval trim_eval)

text \<open>
  C3, amended: for a field of a map type with string keys and a value type of another
  kind than string, integer, unsigned, float or bool, whose resolved raw value is not
  empty, the round of \<^verbatim>\<open>populateStruct\<close> fails at the first pair token and leaves the
  field untouched: with the invalid-map-value error naming the field and the key, caused
  by \<open>errUnsupportedMapValueType\<close>, when the trimmed token has a separator, and with
  \<open>errInvalidMapFormat\<close> naming the field and the token otherwise.
\<close>

theorem C3_unsupported_map_value_type_fails:
  assumes "Type f = TMap kt vt" and "Kind kt = KString"
    and "Kind vt \<notin> {KString, KInt, KUint, KFloat, KBool}"
    and "rawValue (resolveValue \<lparr>field = f, value' = v, rawValue = raw0\<rparr> envMap) = raw"
    and "raw \<noteq> []"
  shows "\<exists>pair rest. Split raw CHR '','' = pair # rest \<and>
     populateField ext envMap raw0 (f, v) =
       ((f, v), raw,
        Some (if CHR '':'' \<in> set (TrimSpace pair)
              then InvalidMapValue (Name f) (pairKey pair) (errUnsupportedMapValueType (Kind vt))
              else errInvalidMapFormat (Name f) pair))"
proof -
  define res where "res = resolveValue \<lparr>field = f, value' = v, rawValue = raw0\<rparr> envMap"
  have res: "field res = f" "value' res = v" "rawValue res = raw"
    using assms(4) by (simp_all add: res_def resolveValue_eq)
  then have res_eq: "res = \<lparr>field = f, value' = v, rawValue = raw\<rparr>" by (cases res) simp
  obtain pair rest where split: "Split raw CHR '','' = pair # rest"
    using Split_not_Nil [of raw "CHR '',''"] by (cases "Split raw CHR '',''") auto
  have conv: "convertMapValue ext res s (Kind vt) = Inl (errUnsupportedMapValueType (Kind vt))" for s
    using assms(3) by (cases "Kind vt") (simp_all add: convertMapValue_def)
  have loop: "setMapLoop ext res (Kind vt) (pair # rest) Map.empty =
     Inl (if CHR '':'' \<in> set (TrimSpace pair)
          then InvalidMapValue (Name f) (pairKey pair) (errUnsupportedMapValueType (Kind vt))
          else errInvalidMapFormat (Name f) pair)"
    unfolding setMapLoop_Cons by (simp add: conv res)
  have "setMap ext res =
     (res, Some (if CHR '':'' \<in> set (TrimSpace pair)
          then InvalidMapValue (Name f) (pairKey pair) (errUnsupportedMapValueType (Kind vt))
          else errInvalidMapFormat (Name f) pair))"
    using assms(1,2) by (simp add: setMap_def res split loop del: setMapLoop.simps)
  then have "setValue ext res =
     (res, Some (if CHR '':'' \<in> set (TrimSpace pair)
          then InvalidMapValue (Name f) (pairKey pair) (errUnsupportedMapValueType (Kind vt))
          else errInvalidMapFormat (Name f) pair))"
    using assms(1) by (simp add: setValue_def res)
  then have "populateField ext envMap raw0 (f, v) =
       ((f, v), raw,
        Some (if CHR '':'' \<in> set (TrimSpace pair)
              then InvalidMapValue (Name f) (pairKey pair) (errUnsupportedMapValueType (Kind vt))
              else errInvalidMapFormat (Name f) pair))"
    using assms(5) res by (simp add: populateField_def res_def [symmetric])
  with split show ?thesis by blast
qed

text \<open>The input of the counterexample, through the amended statement.\<close>

theorem C3_witness:
  "Type \<lparr>Name = ''M'', Tag = [(''env'', ''M'')], Type = TMap TString TOther\<rparr> = TMap TString TOther \<and>
   Kind TString = KString \<and>
   Kind TOther \<notin> {KString, KInt, KUint, KFloat, KBool} \<and>
   rawValue (resolveValue
     \<lparr>field = \<lparr>Name = ''M'', Tag = [(''env'', ''M'')], Type = TMap TString TOther\<rparr>,
      value' = \<lparr>CanSet = True, content = VOther 0\<rparr>, rawValue = []\<rparr> [''M'' \<mapsto> ''a:b'']) = ''a:b'' \<and>
   ''a:b'' \<noteq> [] \<and>
   populateField noExtern [''M'' \<mapsto> ''a:b''] []
     (\<lparr>Name = ''M'', Tag = [(''env'', ''M'')], Type = TMap TString TOther\<rparr>,
      \<lparr>CanSet = True, content = VOther 0\<rparr>) =
   ((\<lparr>Name = ''M'', Tag = [(''env'', ''M'')], Type = TMap TString TOther\<rparr>,
      \<lparr>CanSet = True, content = VOther 0\<rparr>), ''a:b'',
    Some (InvalidMapValue ''M'' ''a'' (errUnsupportedMapValueType KOther)))"
proof -
  have h: "rawValue (resolveValue
     \<lparr>field = \<lparr>Name = ''M'', Tag = [(''env'', ''M'')], Type = TMap TString TOther\<rparr>,
      value' = \<lparr>CanSet = True, content = VOther 0\<rparr>, rawValue = []\<rparr> [''M'' \<mapsto> ''a:b'']) = ''a:b''"
    by (simp add: resolveValue_eq TagGet_def)
  have s: "Split ''a:b'' CHR '','' = [''a:b'']" by simp
  have t: "TrimSpace ''a:b'' = ''a:b''" by (simp add: trim_eval)
  have k: "pairKey ''a:b'' = ''a''"
    by (simp add: pairKey_def keyValueSeparatorLimit_def SplitN_2 trim_eval)
  from C3_unsupported_map_value_type_fails
    [of "\<lparr>Name = ''M'', Tag = [(''env'', ''M'')], Type = TMap TString TOther\<rparr>" TString TOther
        "\<lparr>CanSet = True, content = VOther 0\<rparr>" "[]" "[''M'' \<mapsto> ''a:b'']" "''a:b''" noExtern, OF _ _ _ h]
  have "populateField noExtern [''M'' \<mapsto> ''a:b''] []
     (\<lparr>Name = ''M'', Tag = [(''env'', ''M'')], Type = TMap TString TOther\<rparr>,
      \<lparr>CanSet = True, content = VOther 0\<rparr>) =
   ((\<lparr>Name = ''M'', Tag = [(''env'', ''M'')], Type = TMap TString TOther\<rparr>,
      \<lparr>CanSet = True, content = VOther 0\<rparr>), ''a:b'',
    Some (InvalidMapValue ''M'' ''a'' (errUnsupportedMapValueType KOther)))"
    by (simp add: s t k)
  with h show ?thesis by simp
qed

section \<open>The required check\<close>




section \<open>Where the loader departs from the specification\<close>

text \<open>
  C1: the specification has a field without source key, or with a slot that is not
  writable, skipped with no required check. The loader resolves the empty raw value for
  such a field and then runs the required check on it: a field tagged
  \<^verbatim>\<open>required:"true"\<close> without \<^verbatim>\<open>env\<close> tag, and an unexported field tagged
  \<^verbatim>\<open>required:"true"\<close> whose key is in the source mapping, both make \<^verbatim>\<open>populateStruct\<close>
  fail with \<open>errMissingRequiredField\<close>.
\<close>

theorem C1_required_check_runs_on_skipped_fields:
  "populateStruct noExtern [''KEY'' \<mapsto> ''value'']
     (PointerToStruct
        [(\<lparr>Name = ''NoKey'', Tag = [(''required'', ''true'')], Type = TString\<rparr>,
          \<lparr>CanSet = True, content = VString ''''\<rparr>)]) =
   (PointerToStruct
        [(\<lparr>Name = ''NoKey'', Tag = [(''required'', ''true'')], Type = TString\<rparr>,
          \<lparr>CanSet = True, content = VString ''''\<rparr>)],
    Some (errMissingRequiredField ''NoKey'' '''')) \<and>
   populateStruct noExtern [''KEY'' \<mapsto> ''value'']
     (PointerToStruct
        [(\<lparr>Name = ''private'', Tag = [(''env'', ''KEY''), (''required'', ''true'')], Type = TString\<rparr>,
          \<lparr>CanSet = False, content = VString ''''\<rparr>)]) =
   (PointerToStruct
        [(\<lparr>Name = ''private'', Tag = [(''env'', ''KEY''), (''required'', ''true'')], Type = TString\<rparr>,
          \<lparr>CanSet = False, content = VString ''''\<rparr>)],
    Some (errMissingRequiredField ''private'' ''KEY''))"
  by (simp add: loader_eval)

text \<open>
  C2: the specification has every slice, string slices too, drop the parts that are
  empty after trimming. For a string slice the loader stores all trimmed parts:
  \<^verbatim>\<open>web,,api\<close> gives three elements, the second one the empty string. An integer
  slice does drop them: \<^verbatim>\<open>1,,3,4\<close> gives the three elements 1, 3 and 4.
\<close>

theorem C2_string_slice_keeps_empty_parts:
  "populateStruct noExtern [''TAGS'' \<mapsto> ''web,,api'']
     (PointerToStruct
        [(\<lparr>Name = ''Tags'', Tag = [(''env'', ''TAGS'')], Type = TSlice TString\<rparr>,
          \<lparr>CanSet = True, content = VSlice []\<rparr>)]) =
   (PointerToStruct
        [(\<lparr>Name = ''Tags'', Tag = [(''env'', ''TAGS'')], Type = TSlice TString\<rparr>,
          \<lparr>CanSet = True, content = VSlice [VString ''web'', VString '''', VString ''api'']\<rparr>)],
    None) \<and>
   populateStruct noExtern [''PORTS'' \<mapsto> ''1,,3,4'']
     (PointerToStruct
        [(\<lparr>Name = ''Ports'', Tag = [(''env'', ''PORTS'')], Type = TSlice (TInt 64)\<rparr>,
          \<lparr>CanSet = True, content = VSlice []\<rparr>)]) =
   (PointerToStruct
        [(\<lparr>Name = ''Ports'', Tag = [(''env'', ''PORTS'')], Type = TSlice (TInt 64)\<rparr>,
          \<lparr>CanSet = True, content = VSlice [VInt 1, VInt 3, VInt 4]\<rparr>)],
    None)"
  by (simp add: loader_eval trim_eval parse_eval)

text \<open>
  C4: the specification has a map value that exceeds the range of the value type fail.
  \<^verbatim>\<open>convertMapValue\<close> parses with 64 bits and converts the result to the value type:
  \<^verbatim>\<open>a:256\<close> into a map with 8-bit values, signed or unsigned, succeeds and binds
  \<^verbatim>\<open>a\<close> to 0.
\<close>

theorem C4_map_value_wraps_around:
  "setMap noExtern
     \<lparr>field = \<lparr>Name = ''Limits'', Tag = [(''env'', ''LIMITS'')], Type = TMap TString (TInt 8)\<rparr>,
      value' = \<lparr>CanSet = True, content = VMap Map.empty\<rparr>, rawValue = ''a:256''\<rparr> =
     (\<lparr>field = \<lparr>Name = ''Limits'', Tag = [(''env'', ''LIMITS'')], Type = TMap TString (TInt 8)\<rparr>,
       value' = \<lparr>CanSet = True, content = VMap [''a'' \<mapsto> VInt 0]\<rparr>, rawValue = ''a:256''\<rparr>, None) \<and>
   setMap noExtern
     \<lparr>field = \<lparr>Name = ''Limits'', Tag = [(''env'', ''LIMITS'')], Type = TMap TString (TUint 8)\<rparr>,
      value' = \<lparr>CanSet = True, content = VMap Map.empty\<rparr>, rawValue = ''a:256''\<rparr> =
     (\<lparr>field = \<lparr>Name = ''Limits'', Tag = [(''env'', ''LIMITS'')], Type = TMap TString (TUint 8)\<rparr>,
       value' = \<lparr>CanSet = True, content = VMap [''a'' \<mapsto> VUint 0]\<rparr>, rawValue = ''a:256''\<rparr>, None) \<and>
   snd (populateStruct noExtern [''LIMITS'' \<mapsto> ''a:256'']
     (PointerToStruct
        [(\<lparr>Name = ''Limits'', Tag = [(''env'', ''LIMITS'')], Type = TMap TString (TInt 8)\<rparr>,
          \<lparr>CanSet = True, content = VMap Map.empty\<rparr>)])) = None"
  by (simp add: loader_eval trim_eval parse_eval)

end
